theory Spec2Isabelle
  imports Main
begin

section \<open>run\_claude\_with\_zen.py: the session launcher\<close>

text \<open>
  The script is a sequence of effects on the outside world: it prints, runs and spawns
  child processes, reads the environment, writes and removes one temporary file.  The
  embedding makes every effect an entry of a trace and threads the two module-level
  globals, the environment and the file system through an explicit state.  A Python
  exception is the left summand of the result; \<open>SystemExit\<close> is the exception that
  \<open>sys.exit\<close> raises.  Everything the outside world decides (the result of each child
  process, whether a signal arrives while the script is blocked in a call) is a field of
  the record \<open>world\<close>.
\<close>

subsection \<open>Values, events, state\<close>

type_synonym proc = nat

datatype exn =
    SystemExit int
  | CalledProcessError
  | FileNotFoundError
  | TimeoutExpired
  | OtherException

text \<open>
  What a blocking call (\<open>subprocess.run\<close>, \<open>time.sleep\<close>) can come back with: the
  child's return code, \<open>FileNotFoundError\<close>, some other exception, or a SIGINT/SIGTERM
  delivered while the script waits, in which case Python runs \<open>signal_handler\<close> inside
  the call.  Signals are delivered while the script is blocked: in one of these calls of
  \<open>main\<close>, or in a \<open>wait(timeout=5)\<close> of \<open>cleanup\<close>.  A session handles at most one
  signal: in \<open>main\<close> the handler ends in \<open>SystemExit\<close>, which no \<open>except\<close> clause of the
  script catches, and a \<open>wait\<close> is interrupted only when no signal was handled before.
\<close>

datatype run_outcome = Returned int | NotFound | Failed | Interrupted

datatype json = JString string | JObject "(string \<times> json) list" | JArray "json list"

datatype event =
    Print string
  | Run "string list" "string option"
  | Popen "string list"
  | Sleep nat
  | Terminate proc
  | Wait proc nat
  | Kill proc
  | WriteFile string json
  | Unlink string

record state =
  mcp_process :: "proc option"
  redis_process :: "proc option"
  environ :: "string \<rightharpoonup> string"
  files :: "string \<rightharpoonup> json"
  trace :: "event list"
  cleanup_calls :: nat
  handler_calls :: nat

text \<open>
  \<open>cleanup_calls\<close> and \<open>handler_calls\<close> count the entries into the bodies of
  \<open>cleanup\<close> and \<open>signal_handler\<close>.  \<open>cleanup_calls\<close> is a ghost counter and influences
  nothing; \<open>handler_calls\<close> is the number of signals handled so far and decides one thing
  only: whether a \<open>wait\<close> inside \<open>cleanup\<close> can still be interrupted.
\<close>

record world =
  argv :: "string list"
  env0 :: "string \<rightharpoonup> string"
  getcwd :: string
  home_dir :: string
  sys_executable :: string
  script_parent :: string
  script_parent_abs :: string
  version_probe :: "string \<Rightarrow> run_outcome"
  requirements_exists :: bool
  pip_install :: run_outcome
  ping_first :: run_outcome
  popen_redis :: "proc option"
  sleep_interrupted :: bool
  ping_second :: run_outcome
  exn_text :: "exn \<Rightarrow> string"
  tmp_name :: string
  claude_run :: run_outcome
  wait_exits :: "proc \<Rightarrow> nat \<Rightarrow> bool"
  wait_interrupted :: "proc \<Rightarrow> nat \<Rightarrow> bool"

text \<open>
  \<open>popen_redis\<close> is the handle \<open>subprocess.Popen\<close> returns, or \<open>None\<close> when it raises.
  \<open>wait_exits w p k\<close> tells whether the \<open>k\<close>-th \<open>wait(timeout=5)\<close> on handle \<open>p\<close> sees
  the process exit within the bound, \<open>wait_interrupted w p k\<close> whether a signal arrives
  during that wait.  \<open>script_parent\<close> and \<open>script_parent_abs\<close> are
  \<open>Path(__file__).parent\<close> and \<open>Path(__file__).parent.absolute()\<close> as strings.
\<close>

subsection \<open>Statements\<close>

type_synonym 'a comp = "state \<Rightarrow> (exn + 'a) \<times> state"

definition ret :: "'a \<Rightarrow> 'a comp" where
  "ret a = (\<lambda>s. (Inr a, s))"

definition raise :: "exn \<Rightarrow> 'a comp" where
  "raise e = (\<lambda>s. (Inl e, s))"

definition bnd :: "'a comp \<Rightarrow> ('a \<Rightarrow> 'b comp) \<Rightarrow> 'b comp" where
  "bnd m f = (\<lambda>s. case m s of (Inl e, s') \<Rightarrow> (Inl e, s') | (Inr a, s') \<Rightarrow> f a s')"

fun block :: "unit comp list \<Rightarrow> unit comp" where
  "block [] = ret ()"
| "block (m # ms) = bnd m (\<lambda>_. block ms)"

text \<open>\<open>try: m except <caught>: h\<close> and \<open>try: m finally: fin\<close>.\<close>

definition try_except :: "'a comp \<Rightarrow> (exn \<Rightarrow> bool) \<Rightarrow> (exn \<Rightarrow> 'a comp) \<Rightarrow> 'a comp" where
  "try_except m caught h =
     (\<lambda>s. case m s of
        (Inl e, s') \<Rightarrow> if caught e then h e s' else (Inl e, s')
      | (Inr a, s') \<Rightarrow> (Inr a, s'))"

definition try_finally :: "'a comp \<Rightarrow> unit comp \<Rightarrow> 'a comp" where
  "try_finally m fin =
     (\<lambda>s. case m s of (r, s') \<Rightarrow>
        (case fin s' of (Inl e, s'') \<Rightarrow> (Inl e, s'') | (Inr _, s'') \<Rightarrow> (r, s'')))"

definition emit :: "event \<Rightarrow> unit comp" where
  "emit e = (\<lambda>s. (Inr (), s\<lparr>trace := trace s @ [e]\<rparr>))"

definition print :: "string \<Rightarrow> unit comp" where
  "print t = emit (Print t)"

definition sys_exit :: "int \<Rightarrow> 'a comp" where
  "sys_exit n = raise (SystemExit n)"

definition os_getenv :: "string \<Rightarrow> string option comp" where
  "os_getenv k = (\<lambda>s. (Inr (environ s k), s))"

definition os_getenv_default :: "string \<Rightarrow> string \<Rightarrow> string comp" where
  "os_getenv_default k d = (\<lambda>s. (Inr (case environ s k of None \<Rightarrow> d | Some v \<Rightarrow> v), s))"

definition os_putenv :: "string \<Rightarrow> string \<Rightarrow> unit comp" where
  "os_putenv k v = (\<lambda>s. (Inr (), s\<lparr>environ := (environ s)(k \<mapsto> v)\<rparr>))"

text \<open>Python's truth value of \<open>None\<close> and of a string.\<close>

fun truthy :: "string option \<Rightarrow> bool" where
  "truthy None = False"
| "truthy (Some v) = (v \<noteq> [])"

text \<open>\<open>except Exception\<close> catches everything but \<open>SystemExit\<close> (a \<open>BaseException\<close>).\<close>

fun is_Exception :: "exn \<Rightarrow> bool" where
  "is_Exception (SystemExit n) = False"
| "is_Exception e = True"

subsection \<open>cleanup and signal\_handler (lines 26--57)\<close>

definition count_cleanup :: "unit comp" where
  "count_cleanup = (\<lambda>s. (Inr (), s\<lparr>cleanup_calls := Suc (cleanup_calls s)\<rparr>))"

definition count_handler :: "unit comp" where
  "count_handler = (\<lambda>s. (Inr (), s\<lparr>handler_calls := Suc (handler_calls s)\<rparr>))"

definition proc_terminate :: "proc \<Rightarrow> unit comp" where
  "proc_terminate p = emit (Terminate p)"

definition proc_kill :: "proc \<Rightarrow> unit comp" where
  "proc_kill p = emit (Kill p)"

text \<open>\<open>p.wait(timeout=t)\<close> when no signal arrives during it.\<close>

definition proc_wait_quiet :: "world \<Rightarrow> proc \<Rightarrow> nat \<Rightarrow> unit comp" where
  "proc_wait_quiet w p t =
     (\<lambda>s. let k = count_list (trace s) (Wait p t);
              s' = s\<lparr>trace := trace s @ [Wait p t]\<rparr>
          in if wait_exits w p k then (Inr (), s') else (Inl TimeoutExpired, s'))"

text \<open>The body of \<open>cleanup\<close> (lines 28--44), with the \<open>wait\<close> it calls as a parameter.\<close>

definition cleanup_with :: "(proc \<Rightarrow> nat \<Rightarrow> unit comp) \<Rightarrow> unit comp" where
  "cleanup_with wait = block [
     count_cleanup,
     (\<lambda>s. (case mcp_process s of
              None \<Rightarrow> ret ()
            | Some p \<Rightarrow> block [
                print ''Stopping MCP server...'',
                proc_terminate p,
                try_except (wait p 5) (\<lambda>e. e = TimeoutExpired) (\<lambda>e. proc_kill p)]) s),
     (\<lambda>s. (case redis_process s of
              None \<Rightarrow> ret ()
            | Some p \<Rightarrow> block [
                print ''Stopping Redis...'',
                proc_terminate p,
                try_except (wait p 5) (\<lambda>e. e = TimeoutExpired) (\<lambda>e. proc_kill p)]) s)]"

text \<open>
  \<open>signal_handler\<close> calls \<open>cleanup\<close> after its signal has been counted, so that no wait
  of that run is interrupted: this run is \<open>cleanup_quiet\<close>.  In any other run of
  \<open>cleanup\<close> a wait during which a signal arrives, with none handled before, runs
  \<open>signal_handler\<close> inside \<open>wait\<close>.  The two agree wherever a signal has been handled
  (\<open>cleanup_after_signal\<close> below), so \<open>signal_handler\<close> is the source's: it prints,
  calls \<open>cleanup\<close> and exits with 0 (\<open>signal_handler_calls_cleanup\<close>).
\<close>

definition cleanup_quiet :: "world \<Rightarrow> unit comp" where
  "cleanup_quiet w = cleanup_with (proc_wait_quiet w)"

definition signal_handler :: "world \<Rightarrow> 'a comp" where
  "signal_handler w =
     bnd (block [
            count_handler,
            print (CHR 0x0A # ''Received interrupt signal, cleaning up...''),
            cleanup_quiet w])
         (\<lambda>_. sys_exit 0)"

definition proc_wait :: "world \<Rightarrow> proc \<Rightarrow> nat \<Rightarrow> unit comp" where
  "proc_wait w p t =
     (\<lambda>s. if handler_calls s = 0 \<and> wait_interrupted w p (count_list (trace s) (Wait p t))
          then bnd (emit (Wait p t)) (\<lambda>_. signal_handler w) s
          else proc_wait_quiet w p t s)"

definition cleanup :: "world \<Rightarrow> unit comp" where
  "cleanup w = cleanup_with (proc_wait w)"

subsection \<open>Blocking calls\<close>

text \<open>
  The event \<open>Run cmd cwd\<close> stands for the whole call of \<open>subprocess.run\<close>: the child is
  started and waited for, and when an exception passes through the call the library kills
  and reaps the child before it re-raises.  What is in the trace after a \<open>Run\<close> happened
  after the child was gone.
\<close>

definition subprocess_run :: "world \<Rightarrow> string list \<Rightarrow> string option \<Rightarrow> run_outcome \<Rightarrow> int comp" where
  "subprocess_run w cmd cwd outcome =
     bnd (emit (Run cmd cwd)) (\<lambda>_.
       case outcome of
         Returned rc \<Rightarrow> ret rc
       | NotFound \<Rightarrow> raise FileNotFoundError
       | Failed \<Rightarrow> raise OtherException
       | Interrupted \<Rightarrow> signal_handler w)"

text \<open>\<open>subprocess.run(cmd, capture_output=True, check=True)\<close>.\<close>

definition subprocess_run_check :: "world \<Rightarrow> string list \<Rightarrow> run_outcome \<Rightarrow> unit comp" where
  "subprocess_run_check w cmd outcome =
     bnd (subprocess_run w cmd None outcome) (\<lambda>rc.
       if rc \<noteq> 0 then raise CalledProcessError else ret ())"

definition time_sleep :: "world \<Rightarrow> nat \<Rightarrow> bool \<Rightarrow> unit comp" where
  "time_sleep w n interrupted =
     bnd (emit (Sleep n)) (\<lambda>_. if interrupted then signal_handler w else ret ())"

definition subprocess_Popen :: "world \<Rightarrow> string list \<Rightarrow> proc comp" where
  "subprocess_Popen w cmd =
     bnd (emit (Popen cmd)) (\<lambda>_.
       case popen_redis w of None \<Rightarrow> raise OtherException | Some p \<Rightarrow> ret p)"


subsection \<open>Files and small library functions\<close>

definition write_file :: "string \<Rightarrow> json \<Rightarrow> unit comp" where
  "write_file p c =
     (\<lambda>s. (Inr (), s\<lparr>files := (files s)(p \<mapsto> c), trace := trace s @ [WriteFile p c]\<rparr>))"

definition os_path_exists :: "string \<Rightarrow> bool comp" where
  "os_path_exists p = (\<lambda>s. (Inr (files s p \<noteq> None), s))"

definition os_unlink :: "string \<Rightarrow> unit comp" where
  "os_unlink p =
     (\<lambda>s. if files s p = None then (Inl FileNotFoundError, s)
          else (Inr (), s\<lparr>files := (files s)(p := None), trace := trace s @ [Unlink p]\<rparr>))"

text \<open>\<open>sep.join(xs)\<close>; \<open>dir / name\<close> of pathlib for a directory other than the root.\<close>

fun join :: "string \<Rightarrow> string list \<Rightarrow> string" where
  "join sep [] = []"
| "join sep [x] = x"
| "join sep (x # y # ys) = x @ sep @ join sep (y # ys)"

definition path_join :: "string \<Rightarrow> string \<Rightarrow> string" where
  "path_join d f = d @ ''/'' @ f"

text \<open>\<open>str(n)\<close> for an integer.\<close>

fun show_nat :: "nat \<Rightarrow> string" where
  "show_nat n =
     (if n < 10 then [char_of (48 + n)]
      else show_nat (n div 10) @ [char_of (48 + n mod 10)])"

definition show_int :: "int \<Rightarrow> string" where
  "show_int i = (if i < 0 then CHR ''-'' # show_nat (nat (- i)) else show_nat (nat i))"

subsection \<open>check\_dependencies (lines 59--77)\<close>

definition required :: "(string \<times> string) list" where
  "required = [
     (''claude'', ''Claude Code CLI (npm install -g @anthropic-ai/claude-code)''),
     (''redis-server'', ''Redis server (apt-get install redis-server or brew install redis)''),
     (''python3'', ''Python 3.10+'')]"

text \<open>The \<open>for\<close> loop over \<open>required.items()\<close>, with the list \<open>missing\<close> it appends to.\<close>

fun probe_loop :: "world \<Rightarrow> (string \<times> string) list \<Rightarrow> string list \<Rightarrow> string list comp" where
  "probe_loop w [] missing = ret missing"
| "probe_loop w ((cmd, desc) # rest) missing =
     bnd (try_except
            (bnd (subprocess_run_check w [cmd, ''--version''] (version_probe w cmd))
                 (\<lambda>_. ret missing))
            (\<lambda>e. e = CalledProcessError \<or> e = FileNotFoundError)
            (\<lambda>e. ret (missing @ [''- '' @ desc])))
         (probe_loop w rest)"

definition check_dependencies :: "world \<Rightarrow> unit comp" where
  "check_dependencies w =
     bnd (probe_loop w required []) (\<lambda>missing.
       if missing \<noteq> [] then block [
         print ''Missing dependencies:'',
         print (join [CHR 0x0A] missing),
         sys_exit 1]
       else ret ())"

subsection \<open>setup\_environment (lines 79--108)\<close>

definition setup_environment :: "world \<Rightarrow> (string \<times> string option) list comp" where
  "setup_environment w =
     bnd (os_getenv ''ANTHROPIC_API_KEY'') (\<lambda>anthropic_key.
     bnd (if \<not> truthy anthropic_key then block [
            print ''ERROR: ANTHROPIC_API_KEY environment variable not set'',
            print ''Please set: export ANTHROPIC_API_KEY=your-key-here'',
            sys_exit 1]
          else ret ()) (\<lambda>_.
     bnd (os_getenv ''GEMINI_API_KEY'') (\<lambda>gemini_key.
     bnd (os_getenv ''OPENAI_API_KEY'') (\<lambda>openai_key.
     bnd (os_getenv ''OPENROUTER_API_KEY'') (\<lambda>openrouter_key.
     bnd (if \<not> (truthy gemini_key \<or> truthy openai_key \<or> truthy openrouter_key) then block [
            print ''WARNING: No AI provider API keys found for Zen MCP'',
            print ''Set at least one of: GEMINI_API_KEY, OPENAI_API_KEY, or OPENROUTER_API_KEY'',
            print (''The MCP server will start but won'' @ [CHR 0x27] @ ''t be able to use AI tools'')]
          else ret ()) (\<lambda>_.
     bnd (os_getenv_default ''WORKSPACE_ROOT'' (home_dir w)) (\<lambda>workspace_root.
     bnd (os_putenv ''WORKSPACE_ROOT'' workspace_root) (\<lambda>_.
     ret [(''anthropic'', anthropic_key),
          (''gemini'', gemini_key),
          (''openai'', openai_key),
          (''openrouter'', openrouter_key),
          (''workspace'', Some workspace_root)]))))))))"

subsection \<open>start\_redis (lines 110--138)\<close>

definition set_redis_process :: "proc \<Rightarrow> unit comp" where
  "set_redis_process p = (\<lambda>s. (Inr (), s\<lparr>redis_process := Some p\<rparr>))"

text \<open>
  The first \<open>try\<close> returns from the function when the ping succeeds; the flag
  \<open>already_running\<close> carries that early return.
\<close>

definition start_redis :: "world \<Rightarrow> unit comp" where
  "start_redis w =
     bnd (try_except
            (bnd (subprocess_run_check w [''redis-cli'', ''ping''] (ping_first w)) (\<lambda>_.
             bnd (print ''Redis is already running'') (\<lambda>_. ret True)))
            (\<lambda>e. e = CalledProcessError \<or> e = FileNotFoundError)
            (\<lambda>e. ret False))
         (\<lambda>already_running.
            if already_running then ret ()
            else block [
              print ''Starting Redis server...'',
              try_except
                (block [
                   bnd (subprocess_Popen w [''redis-server'', ''--port'', ''6379'']) set_redis_process,
                   time_sleep w 2 (sleep_interrupted w),
                   subprocess_run_check w [''redis-cli'', ''ping''] (ping_second w),
                   print ''Redis started successfully''])
                is_Exception
                (\<lambda>e. block [
                   print (''Failed to start Redis: '' @ exn_text w e),
                   print ''Some features may not work properly without Redis''])])"

subsection \<open>install\_dependencies (lines 140--151)\<close>

definition install_dependencies :: "world \<Rightarrow> unit comp" where
  "install_dependencies w = block [
     print ''Installing Python dependencies...'',
     if requirements_exists w
     then subprocess_run_check w
            [sys_executable w, ''-m'', ''pip'', ''install'', ''-r'',
             path_join (script_parent w) ''requirements.txt'']
            (pip_install w)
     else print ''WARNING: requirements.txt not found, skipping dependency installation'']"

subsection \<open>create\_mcp\_config (lines 153--175)\<close>

text \<open>The dictionary \<open>config\<close>, with the four \<open>os.getenv\<close> results as parameters.\<close>

definition mcp_config :: "world \<Rightarrow> string \<Rightarrow> string \<Rightarrow> string \<Rightarrow> string \<Rightarrow> string \<Rightarrow> json" where
  "mcp_config w zen_server_path gemini openai openrouter workspace =
     JObject [(''mcpServers'', JObject [(''zen'', JObject [
       (''command'', JString (sys_executable w)),
       (''args'', JArray [JString (path_join zen_server_path ''server.py'')]),
       (''env'', JObject [
          (''GEMINI_API_KEY'', JString gemini),
          (''OPENAI_API_KEY'', JString openai),
          (''OPENROUTER_API_KEY'', JString openrouter),
          (''WORKSPACE_ROOT'', JString workspace),
          (''REDIS_HOST'', JString ''localhost''),
          (''REDIS_PORT'', JString ''6379'')])])])]"

text \<open>
  \<open>NamedTemporaryFile(mode='w', suffix='.json', delete=False)\<close> creates the file
  \<open>tmp_name w\<close>; \<open>json.dump\<close> writes the dictionary into it.
\<close>

definition create_mcp_config :: "world \<Rightarrow> string \<Rightarrow> string comp" where
  "create_mcp_config w zen_server_path =
     bnd (os_getenv_default ''GEMINI_API_KEY'' []) (\<lambda>gemini.
     bnd (os_getenv_default ''OPENAI_API_KEY'' []) (\<lambda>openai.
     bnd (os_getenv_default ''OPENROUTER_API_KEY'' []) (\<lambda>openrouter.
     bnd (os_getenv_default ''WORKSPACE_ROOT'' []) (\<lambda>workspace.
     bnd (write_file (tmp_name w)
            (mcp_config w zen_server_path gemini openai openrouter workspace)) (\<lambda>_.
     ret (tmp_name w))))))"

subsection \<open>run\_claude\_code (lines 177--194)\<close>

definition claude_cmd :: "string \<Rightarrow> string \<Rightarrow> string option \<Rightarrow> string list" where
  "claude_cmd prompt mcp_config_path working_dir =
     [''claude'', ''-p'', prompt,
      ''--mcp-config'', mcp_config_path,
      ''--allowedTools'',
      ''mcp__zen__chat,mcp__zen__thinkdeep,mcp__zen__codereview,mcp__zen__precommit,mcp__zen__debug,mcp__zen__analyze'']
     @ (case working_dir of
          None \<Rightarrow> []
        | Some d \<Rightarrow> if d \<noteq> [] then [''--cwd'', d] else [])"

definition run_claude_code :: "world \<Rightarrow> string \<Rightarrow> string \<Rightarrow> string option \<Rightarrow> int comp" where
  "run_claude_code w prompt mcp_config_path working_dir =
     bnd (print ''Running Claude Code with command:'') (\<lambda>_.
     bnd (print (join '' '' (claude_cmd prompt mcp_config_path working_dir))) (\<lambda>_.
     bnd (print []) (\<lambda>_.
     subprocess_run w (claude_cmd prompt mcp_config_path working_dir) working_dir (claude_run w))))"

subsection \<open>main (lines 196--253) and the interpreter around it\<close>

text \<open>Lines 198--221: arguments, banner, dependency and environment checks, pip.\<close>

definition main_checks :: "world \<Rightarrow> (string \<times> string) comp" where
  "main_checks w =
     bnd (if length (argv w) < 2 then block [
            print ''Usage: python run_claude_with_zen.py <prompt> [working_directory]'',
            print [],
            print ''Examples:'',
            print (''  python run_claude_with_zen.py '' @ [CHR 0x22]
                   @ ''Review this code with zen chat tool'' @ [CHR 0x22]),
            print (''  python run_claude_with_zen.py '' @ [CHR 0x22]
                   @ ''Analyze main.py with zen analyze tool'' @ [CHR 0x22]
                   @ '' /path/to/project''),
            sys_exit 1]
          else ret ()) (\<lambda>_.
     bnd (print ''=== Claude Code with Zen MCP Server ==='') (\<lambda>_.
     bnd (print []) (\<lambda>_.
     bnd (print ''Checking dependencies...'') (\<lambda>_.
     bnd (check_dependencies w) (\<lambda>_.
     bnd (print ''Setting up environment...'') (\<lambda>_.
     bnd (setup_environment w) (\<lambda>env.
     bnd (install_dependencies w) (\<lambda>_.
     ret (argv w ! 1, if length (argv w) > 2 then argv w ! 2 else getcwd w)))))))))"

text \<open>Lines 226--250: the configuration file, the client, the \<open>finally\<close> clause.\<close>

definition main_launch :: "world \<Rightarrow> string \<Rightarrow> string \<Rightarrow> unit comp" where
  "main_launch w prompt working_dir =
     bnd (print ''Creating MCP configuration...'') (\<lambda>_.
     bnd (create_mcp_config w (script_parent_abs w)) (\<lambda>mcp_config_path.
     try_finally
       (bnd (print (CHR 0x0A # ''Running Claude Code in: '' @ working_dir)) (\<lambda>_.
        bnd (print (''Prompt: '' @ prompt)) (\<lambda>_.
        bnd (print ([CHR 0x0A] @ replicate 50 CHR ''='' @ [CHR 0x0A])) (\<lambda>_.
        bnd (run_claude_code w prompt mcp_config_path (Some working_dir)) (\<lambda>exit_code.
        if exit_code \<noteq> 0 then block [
          print (CHR 0x0A # ''Claude Code exited with code: '' @ show_int exit_code),
          sys_exit exit_code]
        else ret ())))))
       (bnd (os_path_exists mcp_config_path) (\<lambda>ex.
          if ex then os_unlink mcp_config_path else ret ()))))"

definition main :: "world \<Rightarrow> unit comp" where
  "main w =
     bnd (main_checks w) (\<lambda>(prompt, working_dir).
     bnd (start_redis w) (\<lambda>_.
     main_launch w prompt working_dir))"

text \<open>
  The interpreter: both globals start as \<open>None\<close>, \<open>main\<close> runs, then the \<open>atexit\<close> hook
  runs \<open>cleanup\<close>.  The exit status is 0 when \<open>main\<close> returns, the argument of
  \<open>sys.exit\<close> when \<open>SystemExit\<close> reaches the top, and 1 for any other exception.  An
  exception that leaves the hook ends the hook and does not change the exit status.
\<close>

definition init_state :: "world \<Rightarrow> state" where
  "init_state w = \<lparr>mcp_process = None, redis_process = None, environ = env0 w,
                   files = Map.empty, trace = [], cleanup_calls = 0, handler_calls = 0\<rparr>"

fun exit_status :: "exn + unit \<Rightarrow> int" where
  "exit_status (Inr u) = 0"
| "exit_status (Inl (SystemExit n)) = n"
| "exit_status (Inl e) = 1"

definition session :: "world \<Rightarrow> int \<times> state" where
  "session w = (case main w (init_state w) of (r, s) \<Rightarrow> (exit_status r, snd (cleanup w s)))"

section \<open>Notions used in the proofs\<close>

text \<open>
  \<open>inv w G s\<close>: the MCP handle is unset, the Redis handle is unset or the one \<open>Popen\<close>
  returned, and every event of the trace satisfies \<open>G\<close>.  \<open>ghost_ok s x s'\<close>: a
  computation either left both ghost counters alone, or ran the signal handler once (and
  with it \<open>cleanup\<close> once) and ended in \<open>SystemExit 0\<close>.  \<open>good w G m\<close>: the
  computation \<open>m\<close> preserves \<open>inv w G\<close> and satisfies \<open>ghost_ok\<close>.
\<close>

fun exn_of :: "exn + 'a \<Rightarrow> exn option" where
  "exn_of (Inl e) = Some e"
| "exn_of (Inr a) = None"

definition inv :: "world \<Rightarrow> (event \<Rightarrow> bool) \<Rightarrow> state \<Rightarrow> bool" where
  "inv w G s =
     (mcp_process s = None
      \<and> (case redis_process s of None \<Rightarrow> True | Some p \<Rightarrow> popen_redis w = Some p)
      \<and> list_all G (trace s))"

definition ghost_ok :: "state \<Rightarrow> exn option \<Rightarrow> state \<Rightarrow> bool" where
  "ghost_ok s x s' =
     ((handler_calls s' = handler_calls s \<and> cleanup_calls s' = cleanup_calls s)
      \<or> (handler_calls s' = Suc (handler_calls s) \<and> cleanup_calls s' = Suc (cleanup_calls s)
          \<and> x = Some (SystemExit 0)))"

definition good :: "world \<Rightarrow> (event \<Rightarrow> bool) \<Rightarrow> 'a comp \<Rightarrow> bool" where
  "good w G m = (\<forall>s. case m s of (r, s') \<Rightarrow> (inv w G s \<longrightarrow> inv w G s') \<and> ghost_ok s (exn_of r) s')"

definition adequate :: "world \<Rightarrow> (event \<Rightarrow> bool) \<Rightarrow> bool" where
  "adequate w G =
     ((\<forall>t. t \<noteq> ''Stopping MCP server...'' \<longrightarrow> G (Print t))
      \<and> (\<forall>p. popen_redis w = Some p \<longrightarrow> G (Terminate p) \<and> G (Wait p 5) \<and> G (Kill p)))"

definition returns :: "('a \<Rightarrow> bool) \<Rightarrow> 'a comp \<Rightarrow> bool" where
  "returns V m = (\<forall>s a s'. m s = (Inr a, s') \<longrightarrow> V a)"

named_theorems good_intros

section \<open>Concrete sessions\<close>

text \<open>
  A session with a prompt and the credential, all three tools installed, no Redis running
  yet, a Redis that starts and later exits on \<open>SIGTERM\<close>, and a client that returns 0.
\<close>

definition sample_world :: world where
  "sample_world = \<lparr>argv = [''run_claude_with_zen.py'', ''review''],
     env0 = [''ANTHROPIC_API_KEY'' \<mapsto> ''key''],
     getcwd = ''/work'', home_dir = ''/home/u'', sys_executable = ''/usr/bin/python3'',
     script_parent = ''/opt/zen'', script_parent_abs = ''/opt/zen'',
     version_probe = (\<lambda>c. Returned 0), requirements_exists = False, pip_install = Returned 0,
     ping_first = Returned 1, popen_redis = Some 7, sleep_interrupted = False,
     ping_second = Returned 0, exn_text = (\<lambda>e. ''error''), tmp_name = ''/tmp/tmpab12.json'',
     claude_run = Returned 0, wait_exits = (\<lambda>p k. True),
     wait_interrupted = (\<lambda>p k. False)\<rparr>"

text \<open>The same session with a \<open>SIGINT\<close> delivered while the client runs.\<close>

definition interrupted_world :: world where
  "interrupted_world = sample_world\<lparr>claude_run := Interrupted\<rparr>"

section \<open>Notions used in the statements\<close>

subsection \<open>Teardown, in the words of the specification\<close>

text \<open>
  What the specification asks of teardown for one owned process: announce, send the
  terminate signal, wait up to the bound of five seconds, and kill only if that wait saw no
  exit.  \<open>tr\<close> is the trace before, which fixes which \<open>wait\<close> this is for the world.
  \<open>teardown_events\<close> does so for the MCP handle and then for the Redis handle.
\<close>

definition graceful_then_forced :: "world \<Rightarrow> event list \<Rightarrow> string \<Rightarrow> proc \<Rightarrow> event list" where
  "graceful_then_forced w tr msg p =
     [Print msg, Terminate p, Wait p 5]
     @ (if wait_exits w p (count_list tr (Wait p 5)) then [] else [Kill p])"

definition teardown_events :: "world \<Rightarrow> state \<Rightarrow> event list" where
  "teardown_events w s =
     (let t1 = (case mcp_process s of
                  None \<Rightarrow> []
                | Some p \<Rightarrow> graceful_then_forced w (trace s) ''Stopping MCP server...'' p);
          t2 = (case redis_process s of
                  None \<Rightarrow> []
                | Some p \<Rightarrow> graceful_then_forced w (trace s @ t1) ''Stopping Redis...'' p)
      in t1 @ t2)"

subsection \<open>Reading the configuration and the trace\<close>

text \<open>
  \<open>config_endpoint\<close> reads \<open>mcpServers.zen.env.REDIS_HOST\<close> and \<open>REDIS_PORT\<close> out of a
  configuration; \<open>endpoint_fixed\<close> holds of an event that spawns the service on port 6379
  or writes a configuration with the endpoint \<open>localhost:6379\<close>, and of every other kind
  of event.
\<close>

fun json_get :: "string \<Rightarrow> json \<Rightarrow> json option" where
  "json_get k (JObject kvs) = map_of kvs k"
| "json_get k j = None"

definition config_endpoint :: "json \<Rightarrow> json option \<times> json option" where
  "config_endpoint cfg =
     (case json_get ''mcpServers'' cfg of
        None \<Rightarrow> (None, None)
      | Some servers \<Rightarrow>
          (case json_get ''zen'' servers of
             None \<Rightarrow> (None, None)
           | Some zen \<Rightarrow>
               (case json_get ''env'' zen of
                  None \<Rightarrow> (None, None)
                | Some env \<Rightarrow> (json_get ''REDIS_HOST'' env, json_get ''REDIS_PORT'' env))))"

fun endpoint_fixed :: "event \<Rightarrow> bool" where
  "endpoint_fixed (Popen cmd) = (cmd = [''redis-server'', ''--port'', ''6379''])"
| "endpoint_fixed (WriteFile p cfg) =
     (config_endpoint cfg = (Some (JString ''localhost''), Some (JString ''6379'')))"
| "endpoint_fixed e = True"

text \<open>
  The sample session with \<open>REDIS_HOST\<close> and \<open>REDIS_PORT\<close> set in the environment; and
  the sample session with a Redis that already answers the ping.
\<close>

definition override_world :: world where
  "override_world = sample_world\<lparr>env0 :=
     [''ANTHROPIC_API_KEY'' \<mapsto> ''key'', ''REDIS_HOST'' \<mapsto> ''10.0.0.5'', ''REDIS_PORT'' \<mapsto> ''7000'']\<rparr>"

definition live_world :: world where
  "live_world = sample_world\<lparr>ping_first := Returned 0\<rparr>"

text \<open>The state in which \<open>signal_handler\<close> calls \<open>cleanup\<close>.\<close>

definition handler_entry :: "state \<Rightarrow> state" where
  "handler_entry s = s\<lparr>handler_calls := Suc (handler_calls s),
     trace := trace s @ [Print (CHR 0x0A # ''Received interrupt signal, cleaning up...'')]\<rparr>"

text \<open>What the run of \<open>cleanup\<close> at exit adds to the trace.\<close>

definition exit_events :: "world \<Rightarrow> state \<Rightarrow> event list" where
  "exit_events w s = drop (length (trace s)) (trace (snd (cleanup w s)))"

text \<open>The configurations written, in order.\<close>

fun written_configs :: "event list \<Rightarrow> json list" where
  "written_configs [] = []"
| "written_configs (WriteFile p c # es) = c # written_configs es"
| "written_configs (e # es) = written_configs es"

text \<open>
  \<open>teardown_on_redis w e\<close>: if \<open>e\<close> is a \<open>terminate\<close>, \<open>wait\<close> or \<open>kill\<close>, it is on the
  handle that \<open>Popen\<close> returned for \<open>redis-server\<close>; if it is a print, it is not the
  announcement of the MCP branch of \<open>cleanup\<close>.
\<close>

fun teardown_on_redis :: "world \<Rightarrow> event \<Rightarrow> bool" where
  "teardown_on_redis w (Terminate p) = (popen_redis w = Some p)"
| "teardown_on_redis w (Wait p t) = (popen_redis w = Some p)"
| "teardown_on_redis w (Kill p) = (popen_redis w = Some p)"
| "teardown_on_redis w (Print t) = (t \<noteq> ''Stopping MCP server...'')"
| "teardown_on_redis w e = True"

subsection \<open>The phases of a session\<close>

text \<open>
  The prompt and working directory \<open>main\<close> takes from \<open>sys.argv\<close>, and the command it
  has \<open>run_claude_code\<close> run.  \<open>reaches_launch w\<close>: the checks and \<open>start_redis\<close> returned
  without an exception, so that \<open>main\<close> goes on to line 226; \<open>launch_state w\<close> is the state
  there.  \<open>reaches_redis w\<close>: the checks returned, so that \<open>main\<close> calls \<open>start_redis\<close>.
\<close>

definition session_prompt :: "world \<Rightarrow> string" where
  "session_prompt w = argv w ! 1"

definition session_dir :: "world \<Rightarrow> string" where
  "session_dir w = (if length (argv w) > 2 then argv w ! 2 else getcwd w)"

definition session_cmd :: "world \<Rightarrow> string list" where
  "session_cmd w = claude_cmd (session_prompt w) (tmp_name w) (Some (session_dir w))"

definition reaches_launch :: "world \<Rightarrow> bool" where
  "reaches_launch w =
     (fst (bnd (main_checks w) (\<lambda>pd. start_redis w) (init_state w)) = Inr ())"

definition launch_state :: "world \<Rightarrow> state" where
  "launch_state w = snd (bnd (main_checks w) (\<lambda>pd. start_redis w) (init_state w))"


text \<open>
  The events of lines 226--250 in three parts: up to and including the client run; what
  follows the run inside the \<open>try\<close> (the message for a non-zero code, or the signal handler
  with its teardown); and the \<open>unlink\<close> of the \<open>finally\<close> clause.  \<open>launch_state_run\<close> is
  the state when the client run ends, \<open>launch_result\<close> what \<open>main\<close> ends with.
\<close>

definition launch_prefix :: "world \<Rightarrow> string \<Rightarrow> string \<Rightarrow> state \<Rightarrow> event list" where
  "launch_prefix w p d s =
     [Print ''Creating MCP configuration...'',
      WriteFile (tmp_name w)
        (mcp_config w (script_parent_abs w)
           (case environ s ''GEMINI_API_KEY'' of None \<Rightarrow> [] | Some v \<Rightarrow> v)
           (case environ s ''OPENAI_API_KEY'' of None \<Rightarrow> [] | Some v \<Rightarrow> v)
           (case environ s ''OPENROUTER_API_KEY'' of None \<Rightarrow> [] | Some v \<Rightarrow> v)
           (case environ s ''WORKSPACE_ROOT'' of None \<Rightarrow> [] | Some v \<Rightarrow> v)),
      Print (CHR 0x0A # ''Running Claude Code in: '' @ d),
      Print (''Prompt: '' @ p),
      Print ([CHR 0x0A] @ replicate 50 CHR ''='' @ [CHR 0x0A]),
      Print ''Running Claude Code with command:'',
      Print (join '' '' (claude_cmd p (tmp_name w) (Some d))),
      Print [],
      Run (claude_cmd p (tmp_name w) (Some d)) (Some d)]"

definition launch_state_run :: "world \<Rightarrow> string \<Rightarrow> string \<Rightarrow> state \<Rightarrow> state" where
  "launch_state_run w p d s =
     s\<lparr>files := (files s)(tmp_name w \<mapsto>
          mcp_config w (script_parent_abs w)
           (case environ s ''GEMINI_API_KEY'' of None \<Rightarrow> [] | Some v \<Rightarrow> v)
           (case environ s ''OPENAI_API_KEY'' of None \<Rightarrow> [] | Some v \<Rightarrow> v)
           (case environ s ''OPENROUTER_API_KEY'' of None \<Rightarrow> [] | Some v \<Rightarrow> v)
           (case environ s ''WORKSPACE_ROOT'' of None \<Rightarrow> [] | Some v \<Rightarrow> v)),
       trace := trace s @ launch_prefix w p d s\<rparr>"

definition launch_middle :: "world \<Rightarrow> string \<Rightarrow> string \<Rightarrow> state \<Rightarrow> event list" where
  "launch_middle w p d s =
     (case claude_run w of
        Returned rc \<Rightarrow>
          if rc \<noteq> 0 then [Print (CHR 0x0A # ''Claude Code exited with code: '' @ show_int rc)]
          else []
      | NotFound \<Rightarrow> []
      | Failed \<Rightarrow> []
      | Interrupted \<Rightarrow>
          Print (CHR 0x0A # ''Received interrupt signal, cleaning up...'')
          # teardown_events w (handler_entry (launch_state_run w p d s)))"

definition launch_result :: "world \<Rightarrow> exn + unit" where
  "launch_result w =
     (case claude_run w of
        Returned rc \<Rightarrow> if rc \<noteq> 0 then Inl (SystemExit rc) else Inr ()
      | NotFound \<Rightarrow> Inl FileNotFoundError
      | Failed \<Rightarrow> Inl OtherException
      | Interrupted \<Rightarrow> Inl (SystemExit 0))"



text \<open>
  The sample session with a client that exits with code 3; and with a Redis that was
  spawned but still does not answer after the wait.
\<close>

definition client_fails_world :: world where
  "client_fails_world = sample_world\<lparr>claude_run := Returned 3\<rparr>"


subsection \<open>The checks\<close>







subsection \<open>Signals outside the calls of main\<close>

text \<open>
  \<open>created_state w\<close> is the state in which \<open>create_mcp_config\<close> has returned to line 231:
  the file exists, the \<open>try\<close> of line 233 is not entered yet.  \<open>signal_before_try w\<close> is
  the rest of the session when a signal is handled there: \<open>signal_handler\<close> runs, its
  \<open>SystemExit\<close> ends \<open>main\<close> outside the \<open>try\<close>, and the \<open>atexit\<close> hook runs \<open>cleanup\<close>.
\<close>

definition created_state :: "world \<Rightarrow> state" where
  "created_state w =
     snd (bnd (print ''Creating MCP configuration...'')
              (\<lambda>_. create_mcp_config w (script_parent_abs w)) (launch_state w))"

definition signal_before_try :: "world \<Rightarrow> int \<times> state" where
  "signal_before_try w =
     (case (signal_handler w :: unit comp) (created_state w) of
        (r, s) \<Rightarrow> (exit_status r, snd (cleanup w s)))"



section \<open>Rules for the statements\<close>



lemma good_ret [good_intros]: "good w G (ret a)"
  by (simp add: good_def ret_def ghost_ok_def)

lemma good_raise [good_intros]: "good w G (raise e)"
  by (simp add: good_def raise_def ghost_ok_def)

lemma good_sys_exit [good_intros]: "good w G (sys_exit n)"
  by (simp add: sys_exit_def good_raise)

lemma good_emit: "G e \<Longrightarrow> good w G (emit e)"
  by (simp add: good_def emit_def ghost_ok_def inv_def)

lemma good_print [good_intros]:
  "adequate w G \<Longrightarrow> t \<noteq> ''Stopping MCP server...'' \<Longrightarrow> good w G (print t)"
  by (simp add: print_def good_emit adequate_def)

lemma good_getenv [good_intros]: "good w G (os_getenv k)"
  by (simp add: good_def os_getenv_def ghost_ok_def)

lemma good_getenv_default [good_intros]: "good w G (os_getenv_default k d)"
  by (simp add: good_def os_getenv_default_def ghost_ok_def)

lemma good_putenv [good_intros]: "good w G (os_putenv k v)"
  by (simp add: good_def os_putenv_def ghost_ok_def inv_def)

lemma good_bnd [good_intros]:
  assumes "good w G m" and "\<And>a. good w G (f a)"
  shows "good w G (bnd m f)"
  unfolding good_def
proof
  fix s
  obtain r s1 where m: "m s = (r, s1)" by (cases "m s")
  from assms(1) m have 1: "inv w G s \<longrightarrow> inv w G s1" and g1: "ghost_ok s (exn_of r) s1"
    by (auto simp: good_def dest: spec [where x = s])
  show "case bnd m f s of (r, s') \<Rightarrow> (inv w G s \<longrightarrow> inv w G s') \<and> ghost_ok s (exn_of r) s'"
  proof (cases r)
    case (Inl e)
    with m 1 g1 show ?thesis by (simp add: bnd_def)
  next
    case (Inr a)
    obtain r2 s2 where f: "f a s1 = (r2, s2)" by (cases "f a s1")
    from assms(2) [of a] f have 2: "inv w G s1 \<longrightarrow> inv w G s2" and g2: "ghost_ok s1 (exn_of r2) s2"
      by (auto simp: good_def dest: spec [where x = s1])
    from g1 Inr have "handler_calls s1 = handler_calls s \<and> cleanup_calls s1 = cleanup_calls s"
      by (simp add: ghost_ok_def)
    with g2 have "ghost_ok s (exn_of r2) s2" by (simp add: ghost_ok_def)
    with m Inr f 1 2 show ?thesis by (simp add: bnd_def)
  qed
qed

lemma good_block_Nil [good_intros]: "good w G (block [])"
  by (simp add: good_ret)

lemma good_block_Cons [good_intros]:
  "good w G m \<Longrightarrow> good w G (block ms) \<Longrightarrow> good w G (block (m # ms))"
  by (simp add: good_bnd)

lemma good_if [good_intros]:
  "(c \<Longrightarrow> good w G a) \<Longrightarrow> (\<not> c \<Longrightarrow> good w G b) \<Longrightarrow> good w G (if c then a else b)"
  by simp

lemma good_case_prod [good_intros]:
  "(\<And>a b. good w G (f a b)) \<Longrightarrow> good w G (case x of (a, b) \<Rightarrow> f a b)"
  by (cases x) simp

lemma good_try_except [good_intros]:
  assumes "good w G m" and "\<not> caught (SystemExit 0)" and "\<And>e. good w G (h e)"
  shows "good w G (try_except m caught h)"
  unfolding good_def
proof
  fix s
  obtain r s1 where m: "m s = (r, s1)" by (cases "m s")
  from assms(1) m have 1: "inv w G s \<longrightarrow> inv w G s1" and g1: "ghost_ok s (exn_of r) s1"
    by (auto simp: good_def dest: spec [where x = s])
  show "case try_except m caught h s of (r, s') \<Rightarrow> (inv w G s \<longrightarrow> inv w G s') \<and> ghost_ok s (exn_of r) s'"
  proof (cases r)
    case (Inr a)
    with m 1 g1 show ?thesis by (simp add: try_except_def)
  next
    case (Inl e)
    show ?thesis
    proof (cases "caught e")
      case False
      with Inl m 1 g1 show ?thesis by (simp add: try_except_def)
    next
      case True
      obtain r2 s2 where f: "h e s1 = (r2, s2)" by (cases "h e s1")
      from assms(3) [of e] f have 2: "inv w G s1 \<longrightarrow> inv w G s2" and g2: "ghost_ok s1 (exn_of r2) s2"
        by (auto simp: good_def dest: spec [where x = s1])
      from True assms(2) have "e \<noteq> SystemExit 0" by auto
      with g1 Inl have "handler_calls s1 = handler_calls s \<and> cleanup_calls s1 = cleanup_calls s"
        by (simp add: ghost_ok_def)
      with g2 have "ghost_ok s (exn_of r2) s2" by (simp add: ghost_ok_def)
      with m Inl True f 1 2 show ?thesis by (simp add: try_except_def)
    qed
  qed
qed

subsection \<open>cleanup and the signal handler\<close>

lemmas cleanup_quiet_defs = cleanup_quiet_def cleanup_with_def bnd_def ret_def count_cleanup_def
  print_def emit_def proc_terminate_def proc_kill_def proc_wait_quiet_def try_except_def Let_def

lemma cleanup_quiet_result:
  "cleanup_quiet w s =
     (Inr (), s\<lparr>cleanup_calls := Suc (cleanup_calls s),
                 trace := trace s @ teardown_events w s\<rparr>)"
  by (simp add: cleanup_quiet_defs teardown_events_def graceful_then_forced_def
      split: option.splits)

lemma cleanup_quiet_never_raises: "fst (cleanup_quiet w s) = Inr ()"
  by (simp add: cleanup_quiet_result)

lemma cleanup_quiet_ghost:
  "cleanup_calls (snd (cleanup_quiet w s)) = Suc (cleanup_calls s)
   \<and> handler_calls (snd (cleanup_quiet w s)) = handler_calls s"
  by (simp add: cleanup_quiet_result)

lemma cleanup_quiet_inv: "adequate w G \<Longrightarrow> inv w G s \<Longrightarrow> inv w G (snd (cleanup_quiet w s))"
  by (auto simp add: cleanup_quiet_defs inv_def adequate_def split: option.splits)

lemma signal_handler_result:
  "signal_handler w s = (Inl (SystemExit 0), snd (cleanup_quiet w (handler_entry s)))"
  by (simp add: signal_handler_def bnd_def ret_def raise_def sys_exit_def count_handler_def
      print_def emit_def cleanup_quiet_result handler_entry_def)

lemma good_signal_handler [good_intros]: "adequate w G \<Longrightarrow> good w G (signal_handler w)"
  unfolding good_def
proof
  fix s :: state
  assume a: "adequate w G"
  have i: "inv w G s \<longrightarrow> inv w G (handler_entry s)"
    using a by (simp add: inv_def adequate_def handler_entry_def)
  have h: "handler_calls (handler_entry s) = Suc (handler_calls s)
      \<and> cleanup_calls (handler_entry s) = cleanup_calls s"
    by (simp add: handler_entry_def)
  show "case signal_handler w s of (r, s') \<Rightarrow> (inv w G s \<longrightarrow> inv w G s') \<and> ghost_ok s (exn_of r) s'"
    using i h cleanup_quiet_inv [OF a, of "handler_entry s"] cleanup_quiet_ghost [of w "handler_entry s"]
    by (simp add: signal_handler_result ghost_ok_def)
qed

text \<open>
  Once a signal has been handled, and in a world where no signal arrives during a wait,
  \<open>cleanup\<close> is \<open>cleanup_quiet\<close>; so \<open>signal_handler\<close> is the function of the source.
\<close>

lemma proc_wait_after_signal:
  "handler_calls s \<noteq> 0 \<Longrightarrow> proc_wait w p t s = proc_wait_quiet w p t s"
  by (simp add: proc_wait_def)

lemma cleanup_after_signal: "handler_calls s \<noteq> 0 \<Longrightarrow> cleanup w s = cleanup_quiet w s"
  by (simp add: cleanup_def cleanup_quiet_defs proc_wait_def split: option.splits)


lemma signal_handler_calls_cleanup:
  "signal_handler w =
     bnd (block [
            count_handler,
            print (CHR 0x0A # ''Received interrupt signal, cleaning up...''),
            cleanup w])
         (\<lambda>_. sys_exit 0)"
  by (rule ext)
     (simp add: signal_handler_def bnd_def ret_def count_handler_def print_def emit_def
        cleanup_after_signal)

text \<open>
  The run of \<open>cleanup\<close> at exit.  A wait of it that a signal interrupts runs the handler:
  \<open>cleanup\<close> is then left by \<open>SystemExit 0\<close>, after the handler's own, quiet, run.
\<close>

lemmas cleanup_exit_defs = cleanup_def cleanup_with_def proc_wait_def proc_wait_quiet_def bnd_def
  ret_def count_cleanup_def print_def emit_def proc_terminate_def proc_kill_def try_except_def
  Let_def signal_handler_result cleanup_quiet_result handler_entry_def teardown_events_def
  graceful_then_forced_def

lemma cleanup_inv: "adequate w G \<Longrightarrow> inv w G s \<Longrightarrow> inv w G (snd (cleanup w s))"
  by (auto simp add: cleanup_exit_defs inv_def adequate_def split: option.splits)

lemma cleanup_exit_ghost:
  assumes "cleanup_calls s = handler_calls s" and "handler_calls s \<le> 1"
  shows "handler_calls (snd (cleanup w s)) \<le> 1
     \<and> cleanup_calls (snd (cleanup w s)) = Suc (handler_calls (snd (cleanup w s)))"
  using assms by (auto simp add: cleanup_exit_defs split: option.splits)

lemma files_cleanup: "files (snd (cleanup w s)) = files s"
  by (simp add: cleanup_exit_defs split: option.splits)

lemma trace_cleanup_exit: "trace (snd (cleanup w s)) = trace s @ exit_events w s"
  by (simp add: exit_events_def cleanup_exit_defs split: option.splits)

lemma unlink_notin_exit: "Unlink p \<notin> set (exit_events w s)"
  by (simp add: exit_events_def cleanup_exit_defs split: option.splits)

lemma no_write_in_exit: "written_configs (exit_events w s) = []"
  by (simp add: exit_events_def cleanup_exit_defs split: option.splits)


lemma good_case_run_outcome [good_intros]:
  "(\<And>rc. good w G (a rc)) \<Longrightarrow> good w G b \<Longrightarrow> good w G c \<Longrightarrow> good w G d \<Longrightarrow>
   good w G (case x of Returned rc \<Rightarrow> a rc | NotFound \<Rightarrow> b | Failed \<Rightarrow> c | Interrupted \<Rightarrow> d)"
  by (cases x) simp_all

lemma good_case_option [good_intros]:
  "good w G a \<Longrightarrow> (\<And>p. good w G (b p)) \<Longrightarrow> good w G (case x of None \<Rightarrow> a | Some p \<Rightarrow> b p)"
  by (cases x) simp_all

lemma good_subprocess_run [good_intros]:
  "adequate w G \<Longrightarrow> G (Run cmd cwd) \<Longrightarrow> good w G (subprocess_run w cmd cwd out)"
  unfolding subprocess_run_def by (intro good_intros good_emit) 

lemma good_subprocess_run_check [good_intros]:
  "adequate w G \<Longrightarrow> G (Run cmd None) \<Longrightarrow> good w G (subprocess_run_check w cmd out)"
  unfolding subprocess_run_check_def by (intro good_intros) 

lemma good_time_sleep [good_intros]:
  "adequate w G \<Longrightarrow> G (Sleep n) \<Longrightarrow> good w G (time_sleep w n b)"
  unfolding time_sleep_def by (intro good_intros good_emit) 

lemma good_Popen [good_intros]:
  "G (Popen cmd) \<Longrightarrow> good w G (subprocess_Popen w cmd)"
  unfolding subprocess_Popen_def by (intro good_intros good_emit)

lemma good_bnd_val:
  assumes "good w G m" and "returns V m" and "\<And>a. V a \<Longrightarrow> good w G (f a)"
  shows "good w G (bnd m f)"
proof -
  let ?f = "\<lambda>a. if V a then f a else ret undefined"
  have "bnd m f = bnd m ?f"
    using assms(2) by (auto simp: bnd_def returns_def fun_eq_iff split: prod.splits sum.splits)
  moreover have "good w G (bnd m ?f)"
    using assms(1,3) by (intro good_bnd) (auto simp: good_ret)
  ultimately show ?thesis by simp
qed

lemma good_set_redis_process: "popen_redis w = Some p \<Longrightarrow> good w G (set_redis_process p)"
  by (simp add: good_def set_redis_process_def inv_def ghost_ok_def)

lemma returns_Popen: "returns (\<lambda>p. popen_redis w = Some p) (subprocess_Popen w cmd)"
  by (auto simp: returns_def subprocess_Popen_def bnd_def emit_def ret_def raise_def split: option.splits)

lemma good_spawn_redis [good_intros]:
  "G (Popen cmd) \<Longrightarrow> good w G (bnd (subprocess_Popen w cmd) set_redis_process)"
  by (rule good_bnd_val [OF good_Popen returns_Popen]) (simp_all add: good_set_redis_process)

lemma not_exception_exit [simp]: "\<not> is_Exception (SystemExit n)"
  by simp

lemma good_start_redis:
  "adequate w G \<Longrightarrow> G (Run [''redis-cli'', ''ping''] None) \<Longrightarrow>
   G (Popen [''redis-server'', ''--port'', ''6379'']) \<Longrightarrow> G (Sleep 2) \<Longrightarrow>
   good w G (start_redis w)"
  unfolding start_redis_def
  by (intro good_intros; simp)

lemma good_install_dependencies:
  "adequate w G \<Longrightarrow>
   G (Run [sys_executable w, ''-m'', ''pip'', ''install'', ''-r'',
           path_join (script_parent w) ''requirements.txt''] None) \<Longrightarrow>
   good w G (install_dependencies w)"
  unfolding install_dependencies_def
  by (intro good_intros; simp)

lemma good_setup_environment: "adequate w G \<Longrightarrow> good w G (setup_environment w)"
  unfolding setup_environment_def
  by (intro good_intros; simp)

lemma good_probe_loop:
  "adequate w G \<Longrightarrow> (\<And>c. G (Run [c, ''--version''] None)) \<Longrightarrow> good w G (probe_loop w reqs acc)"
proof (induction reqs arbitrary: acc)
  case Nil
  show ?case by (simp add: good_ret)
next
  case (Cons r reqs)
  obtain c d where r: "r = (c, d)" by (cases r)
  show ?case unfolding r probe_loop.simps
    by (intro good_intros Cons.IH Cons.prems; simp)
qed

lemma returns_probe_loop:
  "list_all (\<lambda>t. take 2 t = ''- '') acc \<Longrightarrow>
   returns (list_all (\<lambda>t. take 2 t = ''- '')) (probe_loop w reqs acc)"
proof (induction reqs arbitrary: acc)
  case Nil
  then show ?case by (simp add: returns_def ret_def)
next
  case (Cons r reqs)
  obtain c d where r: "r = (c, d)" by (cases r)
  have step: "\<And>s a s'. try_except
            (bnd (subprocess_run_check w [c, ''--version''] (version_probe w c)) (\<lambda>_. ret acc))
            (\<lambda>e. e = CalledProcessError \<or> e = FileNotFoundError)
            (\<lambda>e. ret (acc @ [''- '' @ d])) s = (Inr a, s') \<Longrightarrow> a = acc \<or> a = acc @ [''- '' @ d]"
    by (auto simp: try_except_def bnd_def ret_def split: prod.splits sum.splits if_splits)
  show ?case unfolding r probe_loop.simps returns_def
  proof (intro allI impI)
    fix s a s'
    assume b: "bnd (try_except
            (bnd (subprocess_run_check w [c, ''--version''] (version_probe w c)) (\<lambda>_. ret acc))
            (\<lambda>e. e = CalledProcessError \<or> e = FileNotFoundError)
            (\<lambda>e. ret (acc @ [''- '' @ d]))) (probe_loop w reqs) s = (Inr a, s')"
    then obtain acc' s1 where t: "try_except
            (bnd (subprocess_run_check w [c, ''--version''] (version_probe w c)) (\<lambda>_. ret acc))
            (\<lambda>e. e = CalledProcessError \<or> e = FileNotFoundError)
            (\<lambda>e. ret (acc @ [''- '' @ d])) s = (Inr acc', s1)" and p: "probe_loop w reqs acc' s1 = (Inr a, s')"
      by (auto simp: bnd_def split: prod.splits sum.splits)
    from step [OF t] Cons.prems have "list_all (\<lambda>t. take 2 t = ''- '') acc'" by auto
    from Cons.IH [OF this] p show "list_all (\<lambda>t. take 2 t = ''- '') a"
      by (auto simp: returns_def)
  qed
qed

lemma join_dashed:
  "ms \<noteq> [] \<Longrightarrow> list_all (\<lambda>t. take 2 t = ''- '') ms \<Longrightarrow> join sep ms \<noteq> ''Stopping MCP server...''"
proof -
  assume "ms \<noteq> []" and d: "list_all (\<lambda>t. take 2 t = ''- '') ms"
  then obtain x xs where ms: "ms = x # xs" by (cases ms) auto
  with d have "take 2 x = ''- ''" by simp
  then obtain r where x: "x = CHR ''-'' # r" by (cases x) (auto split: if_splits)
  have "\<exists>t. join sep (x # xs) = CHR ''-'' # t" unfolding x by (cases xs) auto
  then show ?thesis unfolding ms by auto
qed

lemma good_check_dependencies:
  "adequate w G \<Longrightarrow> (\<And>c. G (Run [c, ''--version''] None)) \<Longrightarrow> good w G (check_dependencies w)"
  unfolding check_dependencies_def
  apply (rule good_bnd_val [OF good_probe_loop returns_probe_loop])
     apply assumption
    apply assumption
   apply simp
  apply (intro good_intros; simp add: join_dashed)
  done

lemma good_main_checks:
  "adequate w G \<Longrightarrow> (\<And>c. G (Run [c, ''--version''] None)) \<Longrightarrow>
   G (Run [sys_executable w, ''-m'', ''pip'', ''install'', ''-r'',
           path_join (script_parent w) ''requirements.txt''] None) \<Longrightarrow>
   good w G (main_checks w)"
  unfolding main_checks_def
  by (intro good_intros good_check_dependencies good_setup_environment good_install_dependencies; simp)

lemma good_write_file: "G (WriteFile p c) \<Longrightarrow> good w G (write_file p c)"
  by (simp add: good_def write_file_def ghost_ok_def inv_def)

lemma good_create_mcp_config:
  "(\<And>g a r t. G (WriteFile (tmp_name w) (mcp_config w z g a r t))) \<Longrightarrow>
   good w G (create_mcp_config w z)"
  unfolding create_mcp_config_def
  by (intro good_intros good_write_file; simp)

lemma good_run_claude_code:
  "adequate w G \<Longrightarrow> G (Run (claude_cmd p c d) d) \<Longrightarrow> good w G (run_claude_code w p c d)"
  unfolding run_claude_code_def
  by (intro good_intros; simp add: claude_cmd_def)

lemma good_finally_unlink:
  assumes "good w G m" and "G (Unlink p)"
  shows "good w G (try_finally m (bnd (os_path_exists p) (\<lambda>ex. if ex then os_unlink p else ret ())))"
  unfolding good_def
proof
  fix s
  obtain r s1 where m: "m s = (r, s1)" by (cases "m s")
  from assms(1) m have 1: "inv w G s \<longrightarrow> inv w G s1" and g1: "ghost_ok s (exn_of r) s1"
    by (auto simp: good_def dest: spec [where x = s])
  show "case try_finally m (bnd (os_path_exists p) (\<lambda>ex. if ex then os_unlink p else ret ())) s of
          (r, s') \<Rightarrow> (inv w G s \<longrightarrow> inv w G s') \<and> ghost_ok s (exn_of r) s'"
    using m 1 g1 assms(2)
    by (auto simp: try_finally_def bnd_def os_path_exists_def os_unlink_def ret_def inv_def ghost_ok_def)
qed

lemma good_main_launch:
  "adequate w G \<Longrightarrow>
   (\<And>g a r t. G (WriteFile (tmp_name w) (mcp_config w (script_parent_abs w) g a r t))) \<Longrightarrow>
   (\<And>c d. G (Run (''claude'' # c) d)) \<Longrightarrow>
   G (Unlink (tmp_name w)) \<Longrightarrow> good w G (main_launch w p d)"
  unfolding main_launch_def
  apply (rule good_bnd)
   apply (rule good_print; simp)
  apply (rule good_bnd_val [where V = "\<lambda>n. n = tmp_name w"])
    apply (rule good_create_mcp_config; simp)
   apply (auto simp: returns_def create_mcp_config_def bnd_def ret_def os_getenv_default_def write_file_def)[1]
  apply hypsubst
  apply (rule good_finally_unlink)
   apply (intro good_intros good_run_claude_code; simp add: claude_cmd_def)
  apply simp
  done

lemma good_main:
  "adequate w G \<Longrightarrow> (\<And>c d. G (Run c d)) \<Longrightarrow>
   G (Popen [''redis-server'', ''--port'', ''6379'']) \<Longrightarrow> G (Sleep 2) \<Longrightarrow>
   (\<And>g a r t. G (WriteFile (tmp_name w) (mcp_config w (script_parent_abs w) g a r t))) \<Longrightarrow>
   G (Unlink (tmp_name w)) \<Longrightarrow> good w G (main w)"
  unfolding main_def
  by (intro good_intros good_main_checks good_start_redis good_main_launch; simp)

section \<open>What the functions do\<close>

lemmas run_defs = session_def main_def main_checks_def main_launch_def init_state_def
  check_dependencies_def required_def setup_environment_def install_dependencies_def
  start_redis_def create_mcp_config_def run_claude_code_def cleanup_def cleanup_with_def
  cleanup_quiet_def signal_handler_def
  subprocess_run_def subprocess_run_check_def time_sleep_def subprocess_Popen_def bnd_def
  ret_def raise_def try_except_def try_finally_def emit_def print_def sys_exit_def
  os_getenv_def os_getenv_default_def os_putenv_def count_cleanup_def count_handler_def
  proc_terminate_def proc_kill_def proc_wait_def proc_wait_quiet_def write_file_def os_path_exists_def
  os_unlink_def set_redis_process_def claude_cmd_def path_join_def mcp_config_def

lemma adequate_True: "adequate w (\<lambda>e. True)"
  by (simp add: adequate_def)


lemma trace_cleanup_quiet: "trace (snd (cleanup_quiet w s)) = trace s @ teardown_events w s"
  by (simp add: cleanup_quiet_result)

lemma trace_handler_entry [simp]:
  "trace (handler_entry s) = trace s @ [Print (CHR 0x0A # ''Received interrupt signal, cleaning up...'')]"
  by (simp add: handler_entry_def)

lemma session_inv:
  assumes a: "adequate w G" and "\<And>c d. G (Run c d)"
    and "G (Popen [''redis-server'', ''--port'', ''6379''])" and "G (Sleep 2)"
    and "\<And>g a r t. G (WriteFile (tmp_name w) (mcp_config w (script_parent_abs w) g a r t))"
    and "G (Unlink (tmp_name w))"
  shows "inv w G (snd (session w))"
proof -
  obtain r s where m: "main w (init_state w) = (r, s)" by (cases "main w (init_state w)")
  have "good w G (main w)" using assms by (rule good_main)
  moreover have "inv w G (init_state w)" by (simp add: inv_def init_state_def)
  ultimately have "inv w G s"
    using m by (auto simp: good_def dest: spec [where x = "init_state w"])
  then show ?thesis using m cleanup_inv [OF a] by (simp add: session_def)
qed

lemma main_checks_value:
  "main_checks w s = (Inr pd, s') \<Longrightarrow> pd = (session_prompt w, session_dir w)"
  by (auto simp: main_checks_def bnd_def ret_def session_prompt_def session_dir_def
      split: prod.splits sum.splits if_splits)

lemma main_from_launch:
  assumes "reaches_launch w"
  shows "main w (init_state w) = main_launch w (session_prompt w) (session_dir w) (launch_state w)"
proof -
  obtain r1 s1 where mc: "main_checks w (init_state w) = (r1, s1)"
    by (cases "main_checks w (init_state w)")
  from assms mc obtain pd where r1: "r1 = Inr pd"
    by (cases r1) (auto simp: reaches_launch_def bnd_def)
  from mc r1 have pd: "pd = (session_prompt w, session_dir w)"
    by (auto dest: main_checks_value)
  obtain r2 s2 where sr: "start_redis w s1 = (r2, s2)" by (cases "start_redis w s1")
  from assms mc r1 sr have r2: "r2 = Inr ()"
    by (simp add: reaches_launch_def bnd_def)
  from mc r1 sr have ls: "launch_state w = s2"
    by (simp add: launch_state_def bnd_def)
  show ?thesis
    by (simp add: main_def bnd_def mc r1 pd sr r2 ls)
qed

lemma main_launch_result:
  "fst (main_launch w p d s) = launch_result w"
  by (cases "claude_run w")
     (simp_all add: main_launch_def create_mcp_config_def run_claude_code_def subprocess_run_def
        bnd_def ret_def raise_def sys_exit_def print_def emit_def os_getenv_default_def write_file_def
        try_finally_def os_path_exists_def os_unlink_def launch_result_def signal_handler_result
        cleanup_quiet_result)

lemma main_launch_trace:
  "trace (snd (main_launch w p d s))
     = trace s @ launch_prefix w p d s @ launch_middle w p d s @ [Unlink (tmp_name w)]"
  by (cases "claude_run w")
     (simp_all add: main_launch_def create_mcp_config_def run_claude_code_def subprocess_run_def
        bnd_def ret_def raise_def sys_exit_def print_def emit_def os_getenv_default_def write_file_def
        try_finally_def os_path_exists_def os_unlink_def launch_prefix_def launch_middle_def
        launch_state_run_def signal_handler_result cleanup_quiet_result handler_entry_def)

lemma main_launch_files:
  "files (snd (main_launch w p d s)) (tmp_name w) = None"
  by (cases "claude_run w")
     (simp_all add: main_launch_def create_mcp_config_def run_claude_code_def subprocess_run_def
        bnd_def ret_def raise_def sys_exit_def print_def emit_def os_getenv_default_def write_file_def
        try_finally_def os_path_exists_def os_unlink_def signal_handler_result cleanup_quiet_result
        handler_entry_def)

lemma fst_session: "fst (session w) = exit_status (fst (main w (init_state w)))"
  by (simp add: session_def split: prod.splits)

lemma trace_session:
  "trace (snd (session w))
     = trace (snd (main w (init_state w))) @ exit_events w (snd (main w (init_state w)))"
  by (simp add: session_def trace_cleanup_exit split: prod.splits)

lemma files_session: "files (snd (session w)) = files (snd (main w (init_state w)))"
  by (simp add: session_def files_cleanup split: prod.splits)

lemma unlink_notin_teardown: "Unlink p \<notin> set (teardown_events w s)"
  by (simp add: teardown_events_def graceful_then_forced_def Let_def split: option.splits)

lemma good_invD: "good w G m \<Longrightarrow> inv w G s \<Longrightarrow> inv w G (snd (m s))"
  unfolding good_def by (cases "m s") (auto dest: spec [where x = s])

lemma unlink_notin_launch_state: "Unlink (tmp_name w) \<notin> set (trace (launch_state w))"
proof -
  let ?G = "\<lambda>e. e \<noteq> Unlink (tmp_name w)"
  have a: "adequate w ?G" by (simp add: adequate_def)
  have "good w ?G (bnd (main_checks w) (\<lambda>pd. start_redis w))"
    by (intro good_bnd good_main_checks good_start_redis a) simp_all
  moreover have "inv w ?G (init_state w)" by (simp add: inv_def init_state_def)
  ultimately have "inv w ?G (launch_state w)"
    unfolding launch_state_def by (rule good_invD)
  then show ?thesis by (auto simp: inv_def list_all_iff)
qed

lemma unlink_notin_launch_prefix: "Unlink q \<notin> set (launch_prefix w p d s)"
  by (simp add: launch_prefix_def)

lemma unlink_notin_launch_middle: "Unlink q \<notin> set (launch_middle w p d s)"
  by (cases "claude_run w") (simp_all add: launch_middle_def unlink_notin_teardown)

lemma session_trace_from_launch:
  assumes "reaches_launch w"
  shows "trace (snd (session w))
     = (trace (launch_state w)
        @ launch_prefix w (session_prompt w) (session_dir w) (launch_state w)
        @ launch_middle w (session_prompt w) (session_dir w) (launch_state w))
       @ Unlink (tmp_name w)
         # exit_events w (snd (main w (init_state w)))"
  by (simp add: trace_session main_from_launch [OF assms] main_launch_trace)









lemma written_configs_empty: "(written_configs tr = []) = (\<forall>p c. WriteFile p c \<notin> set tr)"
  by (induction tr rule: written_configs.induct) auto

lemma written_configs_append [simp]:
  "written_configs (xs @ ys) = written_configs xs @ written_configs ys"
  by (induction xs rule: written_configs.induct) auto

lemma no_write_before_launch: "written_configs (trace (launch_state w)) = []"
proof -
  let ?G = "\<lambda>e. written_configs [e] = []"
  have a: "adequate w ?G" by (simp add: adequate_def)
  have "good w ?G (bnd (main_checks w) (\<lambda>pd. start_redis w))"
    by (intro good_bnd good_main_checks good_start_redis a) simp_all
  moreover have "inv w ?G (init_state w)" by (simp add: inv_def init_state_def)
  ultimately have "inv w ?G (launch_state w)"
    unfolding launch_state_def by (rule good_invD)
  then have "\<forall>e \<in> set (trace (launch_state w)). written_configs [e] = []"
    by (simp add: inv_def list_all_iff)
  then show ?thesis
    by (auto simp: written_configs_empty)
qed

lemma main_without_launch:
  assumes "\<not> reaches_launch w"
  shows "snd (main w (init_state w)) = launch_state w"
proof -
  obtain r1 s1 where mc: "main_checks w (init_state w) = (r1, s1)"
    by (cases "main_checks w (init_state w)")
  show ?thesis
  proof (cases r1)
    case (Inl e)
    with mc show ?thesis by (simp add: main_def launch_state_def bnd_def)
  next
    case (Inr pd)
    obtain r2 s2 where sr: "start_redis w s1 = (r2, s2)" by (cases "start_redis w s1")
    from assms mc Inr sr obtain e where "r2 = Inl e"
      by (cases r2) (auto simp: reaches_launch_def bnd_def)
    with mc Inr sr show ?thesis
      by (simp add: main_def launch_state_def bnd_def split: prod.splits)
  qed
qed

lemma created_reaches_launch:
  assumes "written_configs (trace (snd (session w))) \<noteq> []"
  shows "reaches_launch w"
proof (rule ccontr)
  assume "\<not> reaches_launch w"
  then have "trace (snd (session w))
      = trace (launch_state w) @ exit_events w (launch_state w)"
    by (simp add: trace_session main_without_launch)
  then have "written_configs (trace (snd (session w))) = []"
    by (simp add: no_write_before_launch no_write_in_exit)
  with assms show False by simp
qed

text \<open>
  A session of \<open>session\<close> that writes the configuration file enters the \<open>try\<close> of line
  233, and the \<open>finally\<close> clause removes the file: whatever the client run ends with (code
  0, another code, an exception, or a signal handled during the run), the trace has
  exactly one \<open>unlink\<close> of the file, after its creation and after the client run.  In
  these sessions signals are taken in blocking calls only, so none is taken between the
  creation of the file and the \<open>try\<close>.
\<close>

lemma unlink_once_through_try:
  assumes "written_configs (trace (snd (session w))) \<noteq> []"
  shows "count_list (trace (snd (session w))) (Unlink (tmp_name w)) = 1
   \<and> files (snd (session w)) (tmp_name w) = None
   \<and> (\<exists>cfg. WriteFile (tmp_name w) cfg
         \<in> set (takeWhile (\<lambda>e. e \<noteq> Unlink (tmp_name w)) (trace (snd (session w)))))
   \<and> Run (session_cmd w) (Some (session_dir w))
         \<in> set (takeWhile (\<lambda>e. e \<noteq> Unlink (tmp_name w)) (trace (snd (session w))))"
proof -
  have rl: "reaches_launch w" by (rule created_reaches_launch [OF assms])
  let ?p = "tmp_name w"
  let ?pre = "trace (launch_state w)
        @ launch_prefix w (session_prompt w) (session_dir w) (launch_state w)
        @ launch_middle w (session_prompt w) (session_dir w) (launch_state w)"
  let ?post = "exit_events w (snd (main w (init_state w)))"
  have tr: "trace (snd (session w)) = ?pre @ Unlink ?p # ?post"
    by (rule session_trace_from_launch [OF rl])
  have pre: "Unlink ?p \<notin> set ?pre"
    by (simp add: unlink_notin_launch_state unlink_notin_launch_prefix unlink_notin_launch_middle)
  have post: "Unlink ?p \<notin> set ?post" by (rule unlink_notin_exit)
  have "count_list (?pre @ Unlink ?p # ?post) (Unlink ?p) = 1"
    using pre post by (simp add: count_list_0_iff [THEN iffD2])
  then have 1: "count_list (trace (snd (session w))) (Unlink ?p) = 1" by (simp only: tr)
  have 2: "files (snd (session w)) ?p = None"
    by (simp add: files_session main_from_launch [OF rl] main_launch_files)
  have "takeWhile (\<lambda>e. e \<noteq> Unlink ?p) (?pre @ Unlink ?p # ?post) = ?pre"
    using pre by (subst takeWhile_append2) auto
  then have tw: "takeWhile (\<lambda>e. e \<noteq> Unlink ?p) (trace (snd (session w))) = ?pre"
    by (simp only: tr)
  have 3: "\<exists>cfg. WriteFile ?p cfg \<in> set ?pre"
    by (auto simp: launch_prefix_def)
  have 4: "Run (session_cmd w) (Some (session_dir w)) \<in> set ?pre"
    by (simp add: launch_prefix_def session_cmd_def)
  from 1 2 3 4 show ?thesis by (simp only: tw)
qed

lemma created_state_eq:
  "created_state w =
     (launch_state w)\<lparr>files := (files (launch_state w))(tmp_name w \<mapsto>
          mcp_config w (script_parent_abs w)
           (case environ (launch_state w) ''GEMINI_API_KEY'' of None \<Rightarrow> [] | Some v \<Rightarrow> v)
           (case environ (launch_state w) ''OPENAI_API_KEY'' of None \<Rightarrow> [] | Some v \<Rightarrow> v)
           (case environ (launch_state w) ''OPENROUTER_API_KEY'' of None \<Rightarrow> [] | Some v \<Rightarrow> v)
           (case environ (launch_state w) ''WORKSPACE_ROOT'' of None \<Rightarrow> [] | Some v \<Rightarrow> v)),
       trace := trace (launch_state w) @ take 2 (launch_prefix w p d (launch_state w))\<rparr>"
  by (simp add: created_state_def create_mcp_config_def bnd_def ret_def print_def emit_def
      os_getenv_default_def write_file_def launch_prefix_def)

lemma signal_before_try_eq:
  "signal_before_try w =
     (0, snd (cleanup_quiet w (snd (cleanup_quiet w (handler_entry (created_state w))))))"
  by (simp add: signal_before_try_def signal_handler_result cleanup_after_signal
      cleanup_quiet_result handler_entry_def)

section \<open>The claims\<close>

subsection \<open>C1: how often the teardown body runs\<close>

text \<open>
  C1 as stated (the body of \<open>cleanup\<close> runs at most once per session) fails: \<open>cleanup\<close>
  has no guard, \<open>signal_handler\<close> calls it and then \<open>sys.exit(0)\<close>, and the \<open>atexit\<close> hook
  calls it again.  In the interrupted session the body runs twice and \<open>terminate()\<close> is
  called twice on the Redis handle.
\<close>

theorem teardown_once_counterexample:
  "\<not> cleanup_calls (snd (session interrupted_world)) \<le> 1
   \<and> count_list (trace (snd (session interrupted_world))) (Terminate 7) = 2"
  by (simp add: interrupted_world_def sample_world_def run_defs)

text \<open>
  C1, amended: in every session, with at most one signal handled, the body of \<open>cleanup\<close>
  runs once more than the signal handler: exactly once when no signal is handled (the
  \<open>atexit\<close> hook, after \<open>main\<close> returned or ended in an exception), exactly twice when one
  is (the handler's call and the hook's).
\<close>

theorem teardown_count:
  "handler_calls (snd (session w)) \<le> 1
   \<and> cleanup_calls (snd (session w)) = Suc (handler_calls (snd (session w)))"
proof -
  obtain r s where m: "main w (init_state w) = (r, s)" by (cases "main w (init_state w)")
  have "good w (\<lambda>e. True) (main w)"
    by (rule good_main [OF adequate_True]) simp_all
  with m have "ghost_ok (init_state w) (exn_of r) s"
    by (auto simp: good_def dest: spec [where x = "init_state w"])
  then have "cleanup_calls s = handler_calls s" and "handler_calls s \<le> 1"
    by (auto simp: ghost_ok_def init_state_def)
  from cleanup_exit_ghost [OF this, of w] m show ?thesis
    by (simp add: session_def)
qed

theorem teardown_count_witness:
  "handler_calls (snd (session interrupted_world)) = 1
   \<and> cleanup_calls (snd (session interrupted_world)) = 2"
proof -
  have "handler_calls (snd (session interrupted_world)) = 1"
    by (simp add: interrupted_world_def sample_world_def run_defs)
  with teardown_count [of interrupted_world] show ?thesis by simp
qed

subsection \<open>C2: a missing requirement ends the session with code 1 before any spawn\<close>




subsection \<open>C3: the exit code of the client is the exit code of the session\<close>

text \<open>
  C3: in every session that reaches the client launch and in which the client run returns
  a code (no signal is handled during it), the exit status of the session is that code:
  \<open>main\<close> returns when it is 0 and calls \<open>sys.exit(exit_code)\<close> otherwise, and neither
  the \<open>finally\<close> clause nor the \<open>atexit\<close> hook changes it.  The status is the value
  handed to \<open>sys.exit\<close>, before the operating system truncates it.
\<close>

theorem exit_code_propagated:
  assumes "reaches_launch w" and "claude_run w = Returned rc"
  shows "fst (session w) = rc"
  using assms(2)
  by (simp add: fst_session main_from_launch [OF assms(1)] main_launch_result launch_result_def)

theorem exit_code_propagated_witness:
  "reaches_launch client_fails_world \<and> claude_run client_fails_world = Returned 3
   \<and> fst (session client_fails_world) = 3"
proof -
  have r: "reaches_launch client_fails_world"
    by (simp add: reaches_launch_def client_fails_world_def sample_world_def run_defs)
  have c: "claude_run client_fails_world = Returned 3"
    by (simp add: client_fails_world_def)
  from r c exit_code_propagated [OF r c] show ?thesis by simp
qed
subsection \<open>C4: the configuration file is not removed on every exit path\<close>

text \<open>
  C4 does not hold of the code.  The file exists from line 173 on
  (\<open>NamedTemporaryFile(delete=False)\<close>); the only \<open>unlink\<close> is in the \<open>finally\<close> clause of
  the \<open>try\<close> that starts at line 233, and \<open>cleanup\<close> does not touch the file.  When a
  signal is handled after \<open>create_mcp_config\<close> has returned and before that \<open>try\<close> is
  entered, \<open>signal_handler\<close> ends the session with status 0, the \<open>atexit\<close> hook runs, and
  the file that was created is still there: no \<open>unlink\<close> happened.  (The same holds when
  \<open>json.dump\<close> or the closing of the file raises.)  On the paths through the \<open>try\<close> the
  file is removed exactly once, after the client run (\<open>unlink_once_through_try\<close>).
\<close>

theorem artifact_left_behind:
  "fst (signal_before_try w) = 0
   \<and> written_configs (trace (snd (signal_before_try w))) \<noteq> []
   \<and> files (snd (signal_before_try w)) (tmp_name w) \<noteq> None
   \<and> count_list (trace (snd (signal_before_try w))) (Unlink (tmp_name w)) = 0"
proof -
  let ?s = "created_state w"
  let ?h = "handler_entry ?s"
  let ?c = "snd (cleanup_quiet w ?h)"
  have tr: "trace (snd (signal_before_try w))
      = trace (launch_state w) @ take 2 (launch_prefix w [] [] (launch_state w))
        @ Print (CHR 0x0A # ''Received interrupt signal, cleaning up...'')
          # teardown_events w ?h @ teardown_events w ?c"
    by (simp add: signal_before_try_eq cleanup_quiet_result created_state_eq [of w "[]" "[]"])
  have fl: "files (snd (signal_before_try w)) = files ?s"
    by (simp add: signal_before_try_eq cleanup_quiet_result handler_entry_def)
  have 2: "written_configs (trace (snd (signal_before_try w))) \<noteq> []"
    unfolding tr by (simp add: launch_prefix_def)
  have 3: "files (snd (signal_before_try w)) (tmp_name w) \<noteq> None"
    unfolding fl by (simp add: created_state_eq [of w "[]" "[]"])
  have "Unlink (tmp_name w) \<notin> set (trace (snd (signal_before_try w)))"
    unfolding tr
    by (simp add: unlink_notin_launch_state unlink_notin_teardown launch_prefix_def)
  then have 4: "count_list (trace (snd (signal_before_try w))) (Unlink (tmp_name w)) = 0"
    by (simp add: count_list_0_iff)
  from 2 3 4 show ?thesis by (simp add: signal_before_try_eq)
qed

subsection \<open>C5: the service endpoint\<close>

text \<open>
  C5 as stated (host and port overrides from the environment are read and used) fails: the
  script never reads such a setting.  With \<open>REDIS_HOST=10.0.0.5\<close> and \<open>REDIS_PORT=7000\<close> in
  the environment the service is still spawned with \<open>--port 6379\<close> and the configuration
  still names \<open>localhost\<close> and \<open>6379\<close>.
\<close>

theorem endpoint_override_counterexample:
  "env0 override_world ''REDIS_HOST'' = Some ''10.0.0.5''
   \<and> env0 override_world ''REDIS_PORT'' = Some ''7000''
   \<and> Popen [''redis-server'', ''--port'', ''7000''] \<notin> set (trace (snd (session override_world)))
   \<and> Popen [''redis-server'', ''--port'', ''6379''] \<in> set (trace (snd (session override_world)))
   \<and> map config_endpoint (written_configs (trace (snd (session override_world))))
       = [(Some (JString ''localhost''), Some (JString ''6379''))]"
  by (simp add: override_world_def sample_world_def run_defs config_endpoint_def)

text \<open>
  C5, amended: the endpoint is the constant \<open>localhost:6379\<close>.  In every session, whatever
  the environment holds, every spawn of the service is \<open>redis-server --port 6379\<close> and
  every configuration written embeds \<open>REDIS_HOST = localhost\<close> and \<open>REDIS_PORT = 6379\<close>.
\<close>

theorem endpoint_is_fixed:
  "list_all endpoint_fixed (trace (snd (session w)))"
proof -
  have "inv w endpoint_fixed (snd (session w))"
    by (rule session_inv) (simp_all add: adequate_def mcp_config_def config_endpoint_def)
  then show ?thesis by (simp add: inv_def)
qed

theorem endpoint_is_fixed_witness:
  "list_all endpoint_fixed (trace (snd (session override_world)))
   \<and> Popen [''redis-server'', ''--port'', ''6379''] \<in> set (trace (snd (session override_world)))"
proof -
  have "Popen [''redis-server'', ''--port'', ''6379''] \<in> set (trace (snd (session override_world)))"
    by (simp add: override_world_def sample_world_def run_defs)
  with endpoint_is_fixed [of override_world] show ?thesis by simp
qed

subsection \<open>C6: a live service is not spawned again\<close>

text \<open>
  C6: when the first liveness probe succeeds, \<open>start_redis\<close> returns at once: from any
  state it only runs the probe and prints a line; it spawns nothing and leaves the Redis
  handle as it was.
\<close>

theorem start_redis_idempotent:
  "ping_first w = Returned 0 \<Longrightarrow>
   start_redis w s =
     (Inr (), s\<lparr>trace := trace s @ [Run [''redis-cli'', ''ping''] None,
                                     Print ''Redis is already running'']\<rparr>)"
  by (simp add: start_redis_def subprocess_run_check_def subprocess_run_def bnd_def ret_def
      try_except_def emit_def print_def)

theorem start_redis_idempotent_witness:
  "ping_first live_world = Returned 0
   \<and> fst (start_redis live_world (init_state live_world)) = Inr ()
   \<and> trace (snd (start_redis live_world (init_state live_world)))
       = [Run [''redis-cli'', ''ping''] None, Print ''Redis is already running'']
   \<and> redis_process (snd (start_redis live_world (init_state live_world))) = None"
proof -
  have h: "ping_first live_world = Returned 0"
    by (simp add: live_world_def sample_world_def)
  show ?thesis
    using h start_redis_idempotent [OF h, of "init_state live_world"]
    by (simp add: init_state_def)
qed

subsection \<open>C7: a service that does not start does not stop the session\<close>


subsection \<open>C8: graceful termination first, a kill only after the bounded wait\<close>




subsection \<open>C9: the allow-list is a constant\<close>

text \<open>
  C9: the command that \<open>run_claude_code\<close> builds has \<open>--allowedTools\<close> at index 5 and the
  same literal list at index 6 for any two prompts, configuration paths and working
  directories; and that command is the one the function runs.
\<close>

theorem allow_list_constant:
  "claude_cmd p1 c1 d1 ! 5 = ''--allowedTools''
   \<and> claude_cmd p1 c1 d1 ! 6 =
       ''mcp__zen__chat,mcp__zen__thinkdeep,mcp__zen__codereview,mcp__zen__precommit,mcp__zen__debug,mcp__zen__analyze''
   \<and> claude_cmd p1 c1 d1 ! 6 = claude_cmd p2 c2 d2 ! 6
   \<and> Run (claude_cmd p1 c1 d1) d1 \<in> set (trace (snd (run_claude_code w p1 c1 d1 s)))"
proof -
  have "Run (claude_cmd p1 c1 d1) d1 \<in> set (trace (snd (run_claude_code w p1 c1 d1 s)))"
    by (cases "claude_run w")
       (simp_all add: run_claude_code_def subprocess_run_def bnd_def ret_def raise_def print_def
          emit_def signal_handler_result trace_cleanup_quiet)
  then show ?thesis by (simp add: claude_cmd_def)
qed

subsection \<open>C10: the MCP handle is never set\<close>

text \<open>
  C10: in every session \<open>mcp_process\<close> is \<open>None\<close> at the end, the announcement of the MCP
  branch of \<open>cleanup\<close> is never printed, and every \<open>terminate\<close>, \<open>wait\<close> and \<open>kill\<close> is on
  the handle that \<open>Popen\<close> returned for \<open>redis-server\<close>.
\<close>

theorem mcp_handle_never_set:
  "mcp_process (snd (session w)) = None
   \<and> list_all (teardown_on_redis w) (trace (snd (session w)))"
proof -
  have "inv w (teardown_on_redis w) (snd (session w))"
    by (rule session_inv) (simp_all add: adequate_def)
  then show ?thesis by (simp add: inv_def)
qed

theorem mcp_handle_never_set_witness:
  "mcp_process (snd (session interrupted_world)) = None
   \<and> list_all (teardown_on_redis interrupted_world) (trace (snd (session interrupted_world)))
   \<and> count_list (trace (snd (session interrupted_world))) (Print ''Stopping Redis...'') = 2"
proof -
  have "count_list (trace (snd (session interrupted_world))) (Print ''Stopping Redis...'') = 2"
    by (simp add: interrupted_world_def sample_world_def run_defs)
  with mcp_handle_never_set [of interrupted_world] show ?thesis by simp
qed

end
